theory Spec2Isabelle
  imports Complex_Main "HOL-Library.Word"
begin

section \<open>The local assembly kernels of myIntegrator.cpp\<close>

text \<open>
  The two methods of \<^verbatim>\<open>myIntegrator.cpp\<close>, \<^verbatim>\<open>MyLaplaceIntegrator::CalcElementMatrix\<close> and
  \<^verbatim>\<open>MySourceIntegrator::CalcElementVector\<close>, are embedded as HOL functions.

  \<^item> A C++ \<^verbatim>\<open>double\<close> is read in two ways. In \<open>CalcElementMatrix\<close> and \<open>CalcElementVector\<close> it
    is a \<^typ>\<open>real\<close> and the arithmetic is exact: this is the algorithm without rounding. In
    \<open>CalcElementMatrix_double\<close> and \<open>CalcElementVector_double\<close> the same statements run with
    every operation rounded to double precision, as the compiled code rounds it. What holds
    of the first reading only is stated as a property of exact arithmetic.
  \<^item> A dynamically sized \<^verbatim>\<open>Matrix<>\<close> or \<^verbatim>\<open>FlatMatrix<double>\<close> is the list of its rows, a
    \<^verbatim>\<open>Vector<>\<close> or \<^verbatim>\<open>FlatVector<double>\<close> the list of its entries.
  \<^item> The output buffer is caller-owned memory that the method updates in place: each method
    takes the buffer's contents and returns the outcome of the call together with the
    contents the buffer has when the call ends.
  \<^item> The only exception of the methods, the \<^verbatim>\<open>std::bad_cast\<close> of the
    \<^verbatim>\<open>dynamic_cast\<close> to a reference, is a value of the type \<open>error\<close>.
  \<^item> The profiling timer of \<^verbatim>\<open>CalcElementMatrix\<close> touches nothing the method computes
    with and is left out.
\<close>

subsection \<open>Dense matrices and vectors\<close>

type_synonym Vec = "real list"
type_synonym Mat = "real list list"

definition Height :: "Mat \<Rightarrow> nat" where
  "Height A = length A"

definition Width :: "Mat \<Rightarrow> nat" where
  "Width A = (case A of [] \<Rightarrow> 0 | r # _ \<Rightarrow> length r)"

text \<open>An \<open>h\<close> by \<open>w\<close> matrix: \<open>h\<close> rows of \<open>w\<close> entries each.\<close>

definition is_mat :: "nat \<Rightarrow> nat \<Rightarrow> Mat \<Rightarrow> bool" where
  "is_mat h w A \<longleftrightarrow> length A = h \<and> list_all (\<lambda>r. length r = w) A"

text \<open>\<^verbatim>\<open>elmat = 0\<close> and \<^verbatim>\<open>elvec = 0\<close>: every entry of the buffer is set to zero.\<close>

definition mat_zero :: "Mat \<Rightarrow> Mat" where
  "mat_zero A = map (map (\<lambda>_. 0)) A"

definition vec_zero :: "Vec \<Rightarrow> Vec" where
  "vec_zero v = map (\<lambda>_. 0) v"

text \<open>\<^verbatim>\<open>s * A\<close> and \<^verbatim>\<open>s * v\<close> for a scalar \<open>s\<close>.\<close>

definition scal_mat :: "real \<Rightarrow> Mat \<Rightarrow> Mat" where
  "scal_mat s A = map (map (\<lambda>a. s * a)) A"

definition scal_vec :: "real \<Rightarrow> Vec \<Rightarrow> Vec" where
  "scal_vec s v = map (\<lambda>a. s * a) v"

text \<open>\<^verbatim>\<open>Trans(A)\<close>: entry \<open>(j, i)\<close> of the transpose is entry \<open>(i, j)\<close> of \<open>A\<close>.\<close>

definition Trans :: "Mat \<Rightarrow> Mat" where
  "Trans A = map (\<lambda>j. map (\<lambda>i. A ! i ! j) [0..<Height A]) [0..<Width A]"

text \<open>\<^verbatim>\<open>A * B\<close>: entry \<open>(i, j)\<close> is the sum over \<open>k\<close> of \<open>A(i,k) * B(k,j)\<close>.\<close>

definition mat_mult :: "Mat \<Rightarrow> Mat \<Rightarrow> Mat" where
  "mat_mult A B =
     map (\<lambda>i. map (\<lambda>j. \<Sum>k\<leftarrow>[0..<Width A]. A ! i ! k * B ! k ! j) [0..<Width B])
       [0..<Height A]"

text \<open>
  \<^verbatim>\<open>M += E\<close>: the loop runs over the entries of the target \<open>M\<close>, which keeps its shape, and
  reads the same entry of \<open>E\<close>. Where \<open>E\<close> is smaller than \<open>M\<close> the C++ reads out of bounds
  (undefined behaviour) and the model reads an unspecified value; the theorems about the
  values that the methods compute assume an output buffer of the element's size.
\<close>

definition mat_add_assign :: "Mat \<Rightarrow> Mat \<Rightarrow> Mat" where
  "mat_add_assign M E =
     map (\<lambda>i. map (\<lambda>j. M ! i ! j + E ! i ! j) [0..<length (M ! i)]) [0..<length M]"

definition vec_add_assign :: "Vec \<Rightarrow> Vec \<Rightarrow> Vec" where
  "vec_add_assign v e = map (\<lambda>i. v ! i + e ! i) [0..<length v]"

text \<open>The statically sized \<^verbatim>\<open>Mat<2,2>\<close>, with its four entries in row-major order.\<close>

datatype Mat22 = Mat22 real real real real

fun mat_of_Mat22 :: "Mat22 \<Rightarrow> Mat" where
  "mat_of_Mat22 (Mat22 a b c d) = [[a, b], [c, d]]"

subsection \<open>The interfaces of the host framework\<close>

datatype ELEMENT_TYPE =
  ET_POINT | ET_SEGM | ET_TRIG | ET_QUAD | ET_TET | ET_PYRAMID | ET_PRISM | ET_HEX

text \<open>A quadrature point: its two reference coordinates \<^verbatim>\<open>ip(0)\<close>, \<^verbatim>\<open>ip(1)\<close> and its weight.\<close>

record IntegrationPoint =
  ip0 :: real
  ip1 :: real
  Weight :: real

text \<open>
  An integration rule is the list of its points, in the order of \<^verbatim>\<open>ir[0]\<close>, ...,
  \<^verbatim>\<open>ir[GetNIP()-1]\<close>. The constructor \<^verbatim>\<open>IntegrationRule(eltype, order)\<close> belongs to the
  host framework; the methods take it as a parameter.
\<close>

type_synonym IntegrationRule = "IntegrationPoint list"
type_synonym IntegrationRule_ctor = "ELEMENT_TYPE \<Rightarrow> 32 word \<Rightarrow> IntegrationRule"

text \<open>
  What the methods read of a \<^verbatim>\<open>MappedIntegrationPoint<2,2>\<close>: the quadrature point it was
  built from, the mapped point, the inverse of the Jacobian and the measure.
\<close>

record MappedIntegrationPoint =
  IP :: IntegrationPoint
  GetPoint :: "real \<times> real"
  GetJacobianInverse :: Mat22
  GetMeasure :: real

text \<open>
  Modelled from the spec: the element transformation of the host framework, which "at a
  given reference point yields a Jacobian inverse matrix and a scalar measure", and the
  mapped physical point.
\<close>

record ElementTransformation =
  CalcPoint :: "IntegrationPoint \<Rightarrow> real \<times> real"
  CalcJacobianInverse :: "IntegrationPoint \<Rightarrow> Mat22"
  CalcMeasure :: "IntegrationPoint \<Rightarrow> real"

text \<open>The constructor \<^verbatim>\<open>MappedIntegrationPoint<2,2> mip(ip, eltrans)\<close>.\<close>

definition mk_MappedIntegrationPoint ::
    "IntegrationPoint \<Rightarrow> ElementTransformation \<Rightarrow> MappedIntegrationPoint" where
  "mk_MappedIntegrationPoint ip eltrans =
     \<lparr>IP = ip, GetPoint = CalcPoint eltrans ip,
      GetJacobianInverse = CalcJacobianInverse eltrans ip,
      GetMeasure = CalcMeasure eltrans ip\<rparr>"

text \<open>\<^verbatim>\<open>CoefficientFunction::Evaluate\<close>: a real number at every mapped integration point.\<close>

type_synonym CoefficientFunction = "MappedIntegrationPoint \<Rightarrow> real"

text \<open>
  Modelled from the spec: the interface \<^verbatim>\<open>MyBaseElement\<close> of \<^verbatim>\<open>myElement.hpp\<close>, which is
  not among the sources: geometry tag, polynomial order, number of basis functions and the
  "two pure queries" for shape values and reference gradients. \<open>CalcShape fel ip r\<close> is the
  value the element writes into entry \<open>r\<close> of the vector it is handed, \<open>CalcDShape fel ip r k\<close>
  the value it writes into entry \<open>(r, k)\<close> of the matrix.
\<close>

text \<open>
  \<^verbatim>\<open>Order()\<close> returns a C++ \<^verbatim>\<open>int\<close>: a 32-bit word, read as a signed number by \<open>sint\<close>. The
  product \<^verbatim>\<open>2*fel.Order()\<close> is the product of 32-bit words, which wraps around where the
  signed product of C++ overflows (undefined behaviour in C++; the wrap-around is what the
  compiled multiplication does). The number of basis functions is a \<^typ>\<open>nat\<close>.
\<close>

record MyBaseElement =
  ElementType :: ELEMENT_TYPE
  Order :: "32 word"
  GetNDof :: nat
  CalcShape :: "IntegrationPoint \<Rightarrow> nat \<Rightarrow> real"
  CalcDShape :: "IntegrationPoint \<Rightarrow> nat \<Rightarrow> nat \<Rightarrow> real"

text \<open>
  A \<^verbatim>\<open>const FiniteElement &\<close> refers to an object whose dynamic type either derives from
  \<^verbatim>\<open>MyBaseElement\<close> or does not; of an element outside the family only the generic data
  (geometry tag, order, number of basis functions) is kept.
\<close>

datatype FiniteElement =
  IsMyBaseElement MyBaseElement
  | NotMyBaseElement ELEMENT_TYPE "32 word" nat

datatype error = bad_cast

text \<open>\<^verbatim>\<open>dynamic_cast<const MyBaseElement &> (base_fel)\<close>.\<close>

fun dynamic_cast_MyBaseElement :: "FiniteElement \<Rightarrow> error + MyBaseElement" where
  "dynamic_cast_MyBaseElement (IsMyBaseElement fel) = Inr fel"
| "dynamic_cast_MyBaseElement (NotMyBaseElement et ord n) = Inl bad_cast"

subsection \<open>MyLaplaceIntegrator::CalcElementMatrix\<close>

record MyLaplaceIntegrator =
  coef_lambda :: CoefficientFunction

text \<open>
  The temporaries \<^verbatim>\<open>Matrix<> dshape_ref(ndof, 2)\<close> after \<^verbatim>\<open>fel.CalcDShape (ir[i], dshape_ref)\<close>
  and \<^verbatim>\<open>Vector<> shape(ndof)\<close> after \<^verbatim>\<open>fel.CalcShape (ir[i], shape)\<close>.
\<close>

definition fill_dshape_ref :: "MyBaseElement \<Rightarrow> nat \<Rightarrow> IntegrationPoint \<Rightarrow> Mat" where
  "fill_dshape_ref fel ndof ip = map (\<lambda>r. map (\<lambda>k. CalcDShape fel ip r k) [0..<2]) [0..<ndof]"

definition fill_shape :: "MyBaseElement \<Rightarrow> nat \<Rightarrow> IntegrationPoint \<Rightarrow> Vec" where
  "fill_shape fel ndof ip = map (\<lambda>r. CalcShape fel ip r) [0..<ndof]"

text \<open>The body of the loop over the integration points (lines 66 to 85).\<close>

definition laplace_body ::
    "MyLaplaceIntegrator \<Rightarrow> MyBaseElement \<Rightarrow> nat \<Rightarrow> ElementTransformation \<Rightarrow>
     IntegrationPoint \<Rightarrow> Mat \<Rightarrow> Mat" where
  "laplace_body this fel ndof eltrans ip elmat =
     (let mip = mk_MappedIntegrationPoint ip eltrans;
          lam = coef_lambda this mip;
          dshape_ref = fill_dshape_ref fel ndof ip;
          dshape = mat_mult dshape_ref (mat_of_Mat22 (GetJacobianInverse mip));
          fac = Weight (IP mip) * GetMeasure mip
      in mat_add_assign elmat (mat_mult (scal_mat (fac * lam) dshape) (Trans dshape)))"

text \<open>The loop \<^verbatim>\<open>for (int i = 0 ; i < ir.GetNIP(); i++)\<close>, over the points still to visit.\<close>

fun laplace_loop ::
    "MyLaplaceIntegrator \<Rightarrow> MyBaseElement \<Rightarrow> nat \<Rightarrow> ElementTransformation \<Rightarrow>
     IntegrationRule \<Rightarrow> Mat \<Rightarrow> Mat" where
  "laplace_loop this fel ndof eltrans [] elmat = elmat"
| "laplace_loop this fel ndof eltrans (ip # ir) elmat =
     laplace_loop this fel ndof eltrans ir (laplace_body this fel ndof eltrans ip elmat)"

text \<open>
  The method. The scratch allocator \<open>lh\<close> is an argument of any type. The result is the
  outcome of the call and the contents of \<open>elmat\<close> when the call ends.
\<close>

definition CalcElementMatrix ::
    "MyLaplaceIntegrator \<Rightarrow> IntegrationRule_ctor \<Rightarrow> FiniteElement \<Rightarrow> ElementTransformation \<Rightarrow>
     Mat \<Rightarrow> 'lh \<Rightarrow> (error + unit) \<times> Mat" where
  "CalcElementMatrix this IntegrationRule base_fel eltrans elmat lh =
     (case dynamic_cast_MyBaseElement base_fel of
        Inl e \<Rightarrow> (Inl e, elmat)
      | Inr fel \<Rightarrow>
          (let ndof = GetNDof fel;
               elmat0 = mat_zero elmat;
               ir = IntegrationRule (ElementType fel) (2 * Order fel)
           in (Inr (), laplace_loop this fel ndof eltrans ir elmat0)))"

subsection \<open>MySourceIntegrator::CalcElementVector\<close>

record MySourceIntegrator =
  coef_f :: CoefficientFunction

text \<open>The body of the loop over the integration points (lines 119 to 130).\<close>

definition source_body ::
    "MySourceIntegrator \<Rightarrow> MyBaseElement \<Rightarrow> nat \<Rightarrow> ElementTransformation \<Rightarrow>
     IntegrationPoint \<Rightarrow> Vec \<Rightarrow> Vec" where
  "source_body this fel ndof eltrans ip elvec =
     (let mip = mk_MappedIntegrationPoint ip eltrans;
          f = coef_f this mip;
          shape = fill_shape fel ndof ip;
          fac = Weight (IP mip) * GetMeasure mip
      in vec_add_assign elvec (scal_vec (fac * f) shape))"

fun source_loop ::
    "MySourceIntegrator \<Rightarrow> MyBaseElement \<Rightarrow> nat \<Rightarrow> ElementTransformation \<Rightarrow>
     IntegrationRule \<Rightarrow> Vec \<Rightarrow> Vec" where
  "source_loop this fel ndof eltrans [] elvec = elvec"
| "source_loop this fel ndof eltrans (ip # ir) elvec =
     source_loop this fel ndof eltrans ir (source_body this fel ndof eltrans ip elvec)"

definition CalcElementVector ::
    "MySourceIntegrator \<Rightarrow> IntegrationRule_ctor \<Rightarrow> FiniteElement \<Rightarrow> ElementTransformation \<Rightarrow>
     Vec \<Rightarrow> 'lh \<Rightarrow> (error + unit) \<times> Vec" where
  "CalcElementVector this IntegrationRule base_fel eltrans elvec lh =
     (case dynamic_cast_MyBaseElement base_fel of
        Inl e \<Rightarrow> (Inl e, elvec)
      | Inr fel \<Rightarrow>
          (let ndof = GetNDof fel;
               elvec0 = vec_zero elvec;
               ir = IntegrationRule (ElementType fel) (2 * Order fel)
           in (Inr (), source_loop this fel ndof eltrans ir elvec0)))"

subsection \<open>The quadrature sums of the specification\<close>

text \<open>
  The definitions of this subsection follow the words of the specification, not the code:
  they are what the methods are compared with.

  Entry \<open>(r, k)\<close> of the matrix \<open>G\<close> of physical gradients at a quadrature point: the matrix
  of reference gradients right-multiplied by the inverse of the Jacobian.
\<close>

definition phys_grad ::
    "MyBaseElement \<Rightarrow> ElementTransformation \<Rightarrow> IntegrationPoint \<Rightarrow> nat \<Rightarrow> nat \<Rightarrow> real" where
  "phys_grad fel eltrans ip r k =
     (\<Sum>l<2. CalcDShape fel ip r l * mat_of_Mat22 (CalcJacobianInverse eltrans ip) ! l ! k)"

text \<open>The scalar of a quadrature point: weight times measure times the coefficient there.\<close>

definition quad_factor ::
    "CoefficientFunction \<Rightarrow> ElementTransformation \<Rightarrow> IntegrationPoint \<Rightarrow> real" where
  "quad_factor coef eltrans ip =
     Weight ip * CalcMeasure eltrans ip * coef (mk_MappedIntegrationPoint ip eltrans)"

text \<open>Entry \<open>(r, c)\<close> of the sum over the quadrature points of \<open>factor * G * G\<^sup>T\<close>.\<close>

definition laplace_entry ::
    "CoefficientFunction \<Rightarrow> MyBaseElement \<Rightarrow> ElementTransformation \<Rightarrow> IntegrationRule \<Rightarrow>
     nat \<Rightarrow> nat \<Rightarrow> real" where
  "laplace_entry lam fel eltrans ir r c =
     (\<Sum>ip\<leftarrow>ir. quad_factor lam eltrans ip *
        (\<Sum>k<2. phys_grad fel eltrans ip r k * phys_grad fel eltrans ip c k))"

definition laplace_quadrature ::
    "CoefficientFunction \<Rightarrow> MyBaseElement \<Rightarrow> ElementTransformation \<Rightarrow> IntegrationRule \<Rightarrow> Mat" where
  "laplace_quadrature lam fel eltrans ir =
     map (\<lambda>r. map (\<lambda>c. laplace_entry lam fel eltrans ir r c) [0..<GetNDof fel])
       [0..<GetNDof fel]"

text \<open>Entry \<open>r\<close> of the sum over the quadrature points of \<open>factor * shape\<close>.\<close>

definition source_entry ::
    "CoefficientFunction \<Rightarrow> MyBaseElement \<Rightarrow> ElementTransformation \<Rightarrow> IntegrationRule \<Rightarrow>
     nat \<Rightarrow> real" where
  "source_entry f fel eltrans ir r =
     (\<Sum>ip\<leftarrow>ir. quad_factor f eltrans ip * CalcShape fel ip r)"

definition source_quadrature ::
    "CoefficientFunction \<Rightarrow> MyBaseElement \<Rightarrow> ElementTransformation \<Rightarrow> IntegrationRule \<Rightarrow> Vec" where
  "source_quadrature f fel eltrans ir =
     map (\<lambda>r. source_entry f fel eltrans ir r) [0..<GetNDof fel]"


subsection \<open>The first-order triangle and affine triangles\<close>

text \<open>
  Modelled from the spec: the "reference right-triangle element of order 1", which
  \<^verbatim>\<open>myElement.cpp\<close> (not among the sources) provides: the three hat functions of the
  reference triangle with the vertices \<open>(1,0)\<close>, \<open>(0,1)\<close>, \<open>(0,0)\<close>, in this order, and their
  constant gradients.
\<close>

definition MyLinearTrig :: MyBaseElement where
  "MyLinearTrig =
     \<lparr>ElementType = ET_TRIG, Order = 1, GetNDof = 3,
      CalcShape = (\<lambda>ip r. [ip0 ip, ip1 ip, 1 - ip0 ip - ip1 ip] ! r),
      CalcDShape = (\<lambda>ip r k. [[1, 0], [0, 1], [-1, -1]] ! r ! k)\<rparr>"






subsection \<open>Concrete data\<close>

text \<open>
  A rule constructor that knows one rule: for a triangle and order 2, the three edge
  midpoints of the reference triangle, each with the weight \<open>1/6\<close>.
\<close>

definition midpoint_rule :: IntegrationRule_ctor where
  "midpoint_rule et order =
     (if et = ET_TRIG \<and> order = 2
      then [\<lparr>ip0 = 0, ip1 = 1/2, Weight = 1/6\<rparr>, \<lparr>ip0 = 1/2, ip1 = 0, Weight = 1/6\<rparr>,
            \<lparr>ip0 = 1/2, ip1 = 1/2, Weight = 1/6\<rparr>]
      else [])"

text \<open>The transformation that doubles the first coordinate.\<close>

definition stretch :: ElementTransformation where
  "stretch = \<lparr>CalcPoint = (\<lambda>ip. (2 * ip0 ip, ip1 ip)),
              CalcJacobianInverse = (\<lambda>ip. Mat22 (1/2) 0 0 1),
              CalcMeasure = (\<lambda>ip. 2)\<rparr>"

text \<open>The coefficient \<open>1 + x\<close>.\<close>

definition one_plus_x :: CoefficientFunction where
  "one_plus_x mip = 1 + fst (GetPoint mip)"

subsection \<open>Rounding to double precision\<close>

text \<open>
  The arithmetic of IEEE 754 binary64 in its default mode: the result of an addition or a
  multiplication is the exact result rounded to the nearest number with a significand of 53
  bits, and of two nearest numbers the one with the even significand. Every operation is
  rounded by itself; a multiplication and an addition are not fused. The exponent is not
  bounded, so the function agrees with the hardware wherever the rounded result is a normal
  double, of magnitude from \<open>pow2 (- 1022)\<close> to below \<open>pow2 1024\<close>; the numbers of the runs below lie
  between \<open>pow2 (- 56)\<close> and \<open>pow2 4\<close>.

  \<open>binade x\<close> is the exponent \<open>e\<close> with \<open>pow2 e \<le> x < pow2 (e + 1)\<close>, found by doubling or
  halving \<open>x\<close> until it lies between 1 and 2; \<open>pow2 e\<close> is 2 to the power \<open>e\<close>.
\<close>

fun binade_search :: "nat \<Rightarrow> real \<Rightarrow> int" where
  "binade_search 0 x = 0"
| "binade_search (Suc n) x =
     (if x < 1 then binade_search n (2 * x) - 1
      else if 2 \<le> x then binade_search n (x / 2) + 1
      else 0)"

definition binade :: "real \<Rightarrow> int" where
  "binade x = binade_search 1100 x"

definition pow2 :: "int \<Rightarrow> real" where
  "pow2 e = (if 0 \<le> e then 2 ^ nat e else 1 / 2 ^ nat (- e))"

text \<open>The nearest integer, the even one of two nearest.\<close>

definition round_half_even :: "real \<Rightarrow> int" where
  "round_half_even q =
     (let f = \<lfloor>q\<rfloor>; r = q - of_int f
      in if r < 1 / 2 then f else if 1 / 2 < r then f + 1 else if even f then f else f + 1)"

text \<open>
  With \<open>u\<close> the distance of neighbouring doubles in the binade of \<open>x\<close>, the rounded value is
  the nearest multiple of \<open>u\<close>.
\<close>

definition round_to_double :: "real \<Rightarrow> real" where
  "round_to_double x =
     (if x = 0 then 0
      else let u = pow2 (binade \<bar>x\<bar> - 52)
           in sgn x * (of_int (round_half_even (\<bar>x\<bar> / u)) * u))"

text \<open>\<^verbatim>\<open>a + b\<close> and \<^verbatim>\<open>a * b\<close> of two doubles.\<close>

definition dadd :: "real \<Rightarrow> real \<Rightarrow> real" where
  "dadd a b = round_to_double (a + b)"


subsection \<open>The two methods in double-precision arithmetic\<close>












subsection \<open>Concrete data in double precision\<close>








section \<open>Auxiliary facts\<close>

lemma length_mat_add_assign: "length (mat_add_assign M E) = length M"
  by (simp add: mat_add_assign_def)

lemma length_row_mat_add_assign:
  "i < length M \<Longrightarrow> length (mat_add_assign M E ! i) = length (M ! i)"
  by (simp add: mat_add_assign_def)

lemma nth_mat_add_assign:
  "i < length M \<Longrightarrow> j < length (M ! i) \<Longrightarrow> mat_add_assign M E ! i ! j = M ! i ! j + E ! i ! j"
  by (simp add: mat_add_assign_def)

lemma is_mat_nth: "is_mat h w A \<Longrightarrow> i < h \<Longrightarrow> length (A ! i) = w"
  by (auto simp: is_mat_def list_all_length)

lemma is_mat_length: "is_mat h w A \<Longrightarrow> length A = h"
  by (simp add: is_mat_def)

lemma is_matI: "length A = h \<Longrightarrow> (\<And>i. i < h \<Longrightarrow> length (A ! i) = w) \<Longrightarrow> is_mat h w A"
  by (auto simp: is_mat_def list_all_length)

lemma is_mat_add_assign: "is_mat h w M \<Longrightarrow> is_mat h w (mat_add_assign M E)"
  by (rule is_matI) (simp_all add: length_mat_add_assign length_row_mat_add_assign is_mat_length is_mat_nth)

lemma is_mat_zero: "is_mat h w M \<Longrightarrow> is_mat h w (mat_zero M)"
  by (rule is_matI) (simp_all add: mat_zero_def is_mat_length is_mat_nth)

lemma nth_mat_zero: "is_mat h w M \<Longrightarrow> i < h \<Longrightarrow> j < w \<Longrightarrow> mat_zero M ! i ! j = 0"
  by (simp add: mat_zero_def is_mat_length is_mat_nth)

lemma mat_eqI:
  assumes "is_mat h w A" "is_mat h w B"
    and "\<And>i j. i < h \<Longrightarrow> j < w \<Longrightarrow> A ! i ! j = B ! i ! j"
  shows "A = B"
proof (rule nth_equalityI)
  show "length A = length B" using assms(1,2) by (simp add: is_mat_length)
next
  fix i assume "i < length A"
  then have i: "i < h" using assms(1) by (simp add: is_mat_length)
  show "A ! i = B ! i"
  proof (rule nth_equalityI)
    show "length (A ! i) = length (B ! i)" using assms(1,2) i by (simp add: is_mat_nth)
  next
    fix j assume "j < length (A ! i)"
    then have "j < w" using assms(1) i by (simp add: is_mat_nth)
    then show "A ! i ! j = B ! i ! j" using assms(3) i by simp
  qed
qed

lemma is_mat_fill_dshape_ref: "is_mat ndof 2 (fill_dshape_ref fel ndof ip)"
  by (rule is_matI) (simp_all add: fill_dshape_ref_def)

lemma Width_is_mat: "is_mat h w A \<Longrightarrow> 0 < h \<Longrightarrow> Width A = w"
  by (cases A) (auto simp: Width_def is_mat_def)

lemma is_mat_mult: "is_mat (Height A) (Width B) (mat_mult A B)"
  by (rule is_matI) (simp_all add: mat_mult_def)

lemma nth_mat_mult:
  "i < Height A \<Longrightarrow> j < Width B \<Longrightarrow>
     mat_mult A B ! i ! j = (\<Sum>k\<leftarrow>[0..<Width A]. A ! i ! k * B ! k ! j)"
  by (simp add: mat_mult_def)

lemma is_mat_Trans: "is_mat (Width A) (Height A) (Trans A)"
  by (rule is_matI) (simp_all add: Trans_def)

lemma nth_Trans: "j < Width A \<Longrightarrow> i < Height A \<Longrightarrow> Trans A ! j ! i = A ! i ! j"
  by (simp add: Trans_def)

lemma is_mat_scal: "is_mat h w A \<Longrightarrow> is_mat h w (scal_mat s A)"
  by (rule is_matI) (simp_all add: scal_mat_def is_mat_length is_mat_nth)

lemma nth_scal_mat: "is_mat h w A \<Longrightarrow> i < h \<Longrightarrow> j < w \<Longrightarrow> scal_mat s A ! i ! j = s * A ! i ! j"
  by (simp add: scal_mat_def is_mat_length is_mat_nth)

lemma sum_list_upt2: "(\<Sum>k\<leftarrow>[0..<2]. f k) = f 0 + f (1::nat)"
  by (simp add: upt_rec numeral_2_eq_2)

lemma sum_lessThan2: "(\<Sum>k<2. f k) = f 0 + f (1::nat)"
  by (simp add: numeral_2_eq_2)

lemma Width_mat_of_Mat22: "Width (mat_of_Mat22 J) = 2"
  by (cases J) (simp add: Width_def)

lemma nth_dshape:
  assumes "r < ndof" "k < 2"
  shows "mat_mult (fill_dshape_ref fel ndof ip) (mat_of_Mat22 (CalcJacobianInverse eltrans ip)) ! r ! k
         = phys_grad fel eltrans ip r k"
proof -
  have w: "Width (fill_dshape_ref fel ndof ip) = 2"
    using Width_is_mat [OF is_mat_fill_dshape_ref] assms(1) by simp
  have h: "Height (fill_dshape_ref fel ndof ip) = ndof"
    by (simp add: Height_def fill_dshape_ref_def)
  have "fill_dshape_ref fel ndof ip ! r ! l = CalcDShape fel ip r l" if "l < 2" for l
    using that assms(1) by (simp add: fill_dshape_ref_def)
  then show ?thesis
    using assms by (simp add: nth_mat_mult h w Width_mat_of_Mat22 sum_list_upt2 phys_grad_def sum_lessThan2)
qed

lemma is_mat_dshape:
  "is_mat ndof 2 (mat_mult (fill_dshape_ref fel ndof ip) (mat_of_Mat22 J))"
  using is_mat_mult [of "fill_dshape_ref fel ndof ip" "mat_of_Mat22 J"]
  by (simp add: Height_def fill_dshape_ref_def Width_mat_of_Mat22)

lemma nth_rank_update:
  assumes D: "is_mat n 2 D" and r: "r < n" and c: "c < n"
  shows "mat_mult (scal_mat s D) (Trans D) ! r ! c = s * (\<Sum>k<2. D ! r ! k * D ! c ! k)"
proof -
  have n: "0 < n" using r by simp
  have wD: "Width D = 2" using Width_is_mat [OF D n] .
  have hD: "Height D = n" using D by (simp add: Height_def is_mat_length)
  have sD: "is_mat n 2 (scal_mat s D)" using D by (rule is_mat_scal)
  have wS: "Width (scal_mat s D) = 2" using Width_is_mat [OF sD n] .
  have hS: "Height (scal_mat s D) = n" using sD by (simp add: Height_def is_mat_length)
  have T: "is_mat 2 n (Trans D)" using is_mat_Trans [of D] by (simp add: wD hD)
  have wT: "Width (Trans D) = n" using Width_is_mat [OF T] by simp
  have "mat_mult (scal_mat s D) (Trans D) ! r ! c
        = (\<Sum>k\<leftarrow>[0..<2]. scal_mat s D ! r ! k * Trans D ! k ! c)"
    using r c by (simp add: nth_mat_mult hS wT wS)
  also have "\<dots> = s * D ! r ! 0 * D ! c ! 0 + s * D ! r ! 1 * D ! c ! 1"
    using r c by (simp add: sum_list_upt2 nth_scal_mat [OF D] nth_Trans wD hD)
  finally show ?thesis by (simp add: sum_lessThan2 algebra_simps)
qed

lemma nth_laplace_body:
  assumes M: "is_mat n n M" and r: "r < n" and c: "c < n"
  shows "laplace_body this fel n eltrans ip M ! r ! c
         = M ! r ! c + quad_factor (coef_lambda this) eltrans ip *
             (\<Sum>k<2. phys_grad fel eltrans ip r k * phys_grad fel eltrans ip c k)"
proof -
  let ?D = "mat_mult (fill_dshape_ref fel n ip) (mat_of_Mat22 (CalcJacobianInverse eltrans ip))"
  have D: "is_mat n 2 ?D" by (rule is_mat_dshape)
  have "laplace_body this fel n eltrans ip M ! r ! c
        = M ! r ! c + mat_mult (scal_mat (quad_factor (coef_lambda this) eltrans ip) ?D) (Trans ?D) ! r ! c"
    using M r c
    by (simp add: laplace_body_def Let_def mk_MappedIntegrationPoint_def quad_factor_def
        nth_mat_add_assign is_mat_length is_mat_nth)
  then show ?thesis
    using r c by (simp add: nth_rank_update [OF D r c] nth_dshape)
qed

lemma is_mat_laplace_body: "is_mat h w M \<Longrightarrow> is_mat h w (laplace_body this fel n eltrans ip M)"
  by (simp add: laplace_body_def Let_def is_mat_add_assign)

lemma is_mat_laplace_loop: "is_mat h w M \<Longrightarrow> is_mat h w (laplace_loop this fel n eltrans ir M)"
  by (induction ir arbitrary: M) (simp_all add: is_mat_laplace_body)

lemma nth_laplace_loop:
  "is_mat n n M \<Longrightarrow> r < n \<Longrightarrow> c < n \<Longrightarrow>
   laplace_loop this fel n eltrans ir M ! r ! c
     = M ! r ! c + laplace_entry (coef_lambda this) fel eltrans ir r c"
proof (induction ir arbitrary: M)
  case Nil
  then show ?case by (simp add: laplace_entry_def)
next
  case (Cons ip ir)
  have "is_mat n n (laplace_body this fel n eltrans ip M)"
    using Cons.prems(1) by (rule is_mat_laplace_body)
  from Cons.IH [OF this Cons.prems(2,3)] show ?case
    using Cons.prems by (simp add: nth_laplace_body laplace_entry_def)
qed

lemma is_mat_laplace_quadrature:
  "is_mat (GetNDof fel) (GetNDof fel) (laplace_quadrature lam fel eltrans ir)"
  by (rule is_matI) (simp_all add: laplace_quadrature_def)

lemma laplace_loop_eq:
  assumes "is_mat (GetNDof fel) (GetNDof fel) elmat"
  shows "laplace_loop this fel (GetNDof fel) eltrans ir (mat_zero elmat)
         = laplace_quadrature (coef_lambda this) fel eltrans ir"
proof (rule mat_eqI)
  show "is_mat (GetNDof fel) (GetNDof fel) (laplace_loop this fel (GetNDof fel) eltrans ir (mat_zero elmat))"
    using assms by (simp add: is_mat_laplace_loop is_mat_zero)
  show "is_mat (GetNDof fel) (GetNDof fel) (laplace_quadrature (coef_lambda this) fel eltrans ir)"
    by (rule is_mat_laplace_quadrature)
next
  fix i j assume "i < GetNDof fel" "j < GetNDof fel"
  then show "laplace_loop this fel (GetNDof fel) eltrans ir (mat_zero elmat) ! i ! j
             = laplace_quadrature (coef_lambda this) fel eltrans ir ! i ! j"
    using assms
    by (simp add: nth_laplace_loop is_mat_zero nth_mat_zero [OF assms] laplace_quadrature_def)
qed

lemma length_source_body: "length (source_body this fel n eltrans ip v) = length v"
  by (simp add: source_body_def Let_def vec_add_assign_def)

lemma length_source_loop: "length (source_loop this fel n eltrans ir v) = length v"
  by (induction ir arbitrary: v) (simp_all add: length_source_body)

lemma nth_source_body:
  "length v = n \<Longrightarrow> r < n \<Longrightarrow>
   source_body this fel n eltrans ip v ! r
     = v ! r + quad_factor (coef_f this) eltrans ip * CalcShape fel ip r"
  by (simp add: source_body_def Let_def vec_add_assign_def scal_vec_def fill_shape_def
      mk_MappedIntegrationPoint_def quad_factor_def)

lemma nth_source_loop:
  "length v = n \<Longrightarrow> r < n \<Longrightarrow>
   source_loop this fel n eltrans ir v ! r = v ! r + source_entry (coef_f this) fel eltrans ir r"
proof (induction ir arbitrary: v)
  case Nil
  then show ?case by (simp add: source_entry_def)
next
  case (Cons ip ir)
  have "length (source_body this fel n eltrans ip v) = n"
    using Cons.prems(1) by (simp add: length_source_body)
  from Cons.IH [OF this Cons.prems(2)] show ?case
    using Cons.prems by (simp add: nth_source_body source_entry_def)
qed

lemma source_loop_eq:
  assumes "length elvec = GetNDof fel"
  shows "source_loop this fel (GetNDof fel) eltrans ir (vec_zero elvec)
         = source_quadrature (coef_f this) fel eltrans ir"
proof (rule nth_equalityI)
  show "length (source_loop this fel (GetNDof fel) eltrans ir (vec_zero elvec))
        = length (source_quadrature (coef_f this) fel eltrans ir)"
    using assms by (simp add: length_source_loop vec_zero_def source_quadrature_def)
next
  fix r assume "r < length (source_loop this fel (GetNDof fel) eltrans ir (vec_zero elvec))"
  then have r: "r < GetNDof fel"
    using assms by (simp add: length_source_loop vec_zero_def)
  have "length (vec_zero elvec) = GetNDof fel" using assms by (simp add: vec_zero_def)
  from nth_source_loop [OF this r] show
    "source_loop this fel (GetNDof fel) eltrans ir (vec_zero elvec) ! r
     = source_quadrature (coef_f this) fel eltrans ir ! r"
    using r assms by (simp add: vec_zero_def source_quadrature_def)
qed

lemma upt_0_2: "[0..<2] = [0, 1]" by (simp add: numeral_2_eq_2 upt_conv_Cons)

lemma upt_0_3: "[0..<3] = [0, 1, 2]" by (simp add: numeral_3_eq_3 upt_conv_Cons)


















text \<open>Zeroing a buffer leaves a result that depends on the buffer's shape only.\<close>

lemma mat_zero_shape: "mat_zero A = map (\<lambda>n. replicate n 0) (map length A)"
  by (simp add: mat_zero_def map_replicate_const)

lemma vec_zero_shape: "vec_zero v = replicate (length v) 0"
  by (simp add: vec_zero_def map_replicate_const)

text \<open>The two methods on a supported element, with the loop replaced by the quadrature sum.\<close>

lemma CalcElementMatrix_eq:
  assumes "is_mat (GetNDof fel) (GetNDof fel) elmat"
  shows "CalcElementMatrix this IntegrationRule (IsMyBaseElement fel) eltrans elmat lh
         = (Inr (), laplace_quadrature (coef_lambda this) fel eltrans
                      (IntegrationRule (ElementType fel) (2 * Order fel)))"
  using laplace_loop_eq [OF assms] by (simp add: CalcElementMatrix_def Let_def)

lemma CalcElementVector_eq:
  assumes "length elvec = GetNDof fel"
  shows "CalcElementVector this IntegrationRule (IsMyBaseElement fel) eltrans elvec lh
         = (Inr (), source_quadrature (coef_f this) fel eltrans
                      (IntegrationRule (ElementType fel) (2 * Order fel)))"
  using source_loop_eq [OF assms] by (simp add: CalcElementVector_def Let_def)

text \<open>The concrete data: shapes, the rule that is built, and the quadrature sums.\<close>

lemma is_mat_sevens:
  "is_mat (GetNDof MyLinearTrig) (GetNDof MyLinearTrig) [[7, 7, 7], [7, 7, 7], [7, 7, 7]]"
  by (simp add: is_mat_def MyLinearTrig_def)

lemma length_sevens: "length [7, 7, 7 :: real] = GetNDof MyLinearTrig"
  by (simp add: MyLinearTrig_def)

lemma MyLinearTrig_rule_args:
  "ElementType MyLinearTrig = ET_TRIG" "2 * Order MyLinearTrig = 2"
  by (simp_all add: MyLinearTrig_def)

lemma laplace_quadrature_example:
  "laplace_quadrature one_plus_x MyLinearTrig stretch (midpoint_rule ET_TRIG 2)
   = [[5 / 12, 0, - (5 / 12)], [0, 5 / 3, - (5 / 3)], [- (5 / 12), - (5 / 3), 25 / 12]]"
  by (simp add: laplace_quadrature_def laplace_entry_def phys_grad_def quad_factor_def
      MyLinearTrig_def midpoint_rule_def stretch_def one_plus_x_def
      mk_MappedIntegrationPoint_def upt_0_3 sum_lessThan2)

lemma source_quadrature_example:
  "source_quadrature one_plus_x MyLinearTrig stretch (midpoint_rule ET_TRIG 2)
   = [2 / 3, 1 / 2, 1 / 2]"
  by (simp add: source_quadrature_def source_entry_def quad_factor_def
      MyLinearTrig_def midpoint_rule_def stretch_def one_plus_x_def
      mk_MappedIntegrationPoint_def upt_0_3)

text \<open>
  The coefficient is handed the whole mapped integration point; the inverse of the Jacobian
  reaches the vector method's result through the coefficient only.
\<close>

lemma mk_MappedIntegrationPoint_update:
  "mk_MappedIntegrationPoint ip (eltrans\<lparr>CalcJacobianInverse := J\<rparr>)
   = (mk_MappedIntegrationPoint ip eltrans)\<lparr>GetJacobianInverse := J ip\<rparr>"
  by (simp add: mk_MappedIntegrationPoint_def)

lemma source_quadrature_Jinv:
  assumes "\<forall>mip J. f (mip\<lparr>GetJacobianInverse := J\<rparr>) = f mip"
  shows "source_quadrature f fel (eltrans\<lparr>CalcJacobianInverse := Jinv\<rparr>) ir
         = source_quadrature f fel eltrans ir"
  by (simp add: source_quadrature_def source_entry_def quad_factor_def
      mk_MappedIntegrationPoint_update assms)

text \<open>
  Runs of the two methods themselves on the concrete data, one pass of the loop at a time.
\<close>

lemmas laplace_body_unfold =
  laplace_body_def Let_def mk_MappedIntegrationPoint_def fill_dshape_ref_def
  MyLinearTrig_def stretch_def one_plus_x_def mat_mult_def Trans_def scal_mat_def
  mat_add_assign_def Height_def Width_def upt_0_2 upt_0_3

lemma laplace_body_run_1:
  "laplace_body \<lparr>coef_lambda = one_plus_x\<rparr> MyLinearTrig 3 stretch
     \<lparr>ip0 = 0, ip1 = 1/2, Weight = 1/6\<rparr> [[0, 0, 0], [0, 0, 0], [0, 0, 0]]
   = [[1 / 12, 0, - (1 / 12)], [0, 1 / 3, - (1 / 3)], [- (1 / 12), - (1 / 3), 5 / 12]]"
  by (simp add: laplace_body_unfold)

lemma laplace_body_run_2:
  "laplace_body \<lparr>coef_lambda = one_plus_x\<rparr> MyLinearTrig 3 stretch
     \<lparr>ip0 = 1/2, ip1 = 0, Weight = 1/6\<rparr>
     [[1 / 12, 0, - (1 / 12)], [0, 1 / 3, - (1 / 3)], [- (1 / 12), - (1 / 3), 5 / 12]]
   = [[1 / 4, 0, - (1 / 4)], [0, 1, - 1], [- (1 / 4), - 1, 5 / 4]]"
  by (simp add: laplace_body_unfold)

lemma laplace_body_run_3:
  "laplace_body \<lparr>coef_lambda = one_plus_x\<rparr> MyLinearTrig 3 stretch
     \<lparr>ip0 = 1/2, ip1 = 1/2, Weight = 1/6\<rparr>
     [[1 / 4, 0, - (1 / 4)], [0, 1, - 1], [- (1 / 4), - 1, 5 / 4]]
   = [[5 / 12, 0, - (5 / 12)], [0, 5 / 3, - (5 / 3)], [- (5 / 12), - (5 / 3), 25 / 12]]"
  by (simp add: laplace_body_unfold)

lemma MyLinearTrig_ndof: "GetNDof MyLinearTrig = 3"
  by (simp add: MyLinearTrig_def)

lemma CalcElementMatrix_run:
  "CalcElementMatrix \<lparr>coef_lambda = one_plus_x\<rparr> midpoint_rule (IsMyBaseElement MyLinearTrig)
     stretch [[7, 7, 7], [7, 7, 7], [7, 7, 7]] ()
   = (Inr (), [[5 / 12, 0, - (5 / 12)], [0, 5 / 3, - (5 / 3)], [- (5 / 12), - (5 / 3), 25 / 12]])"
  by (simp add: CalcElementMatrix_def mat_zero_def midpoint_rule_def MyLinearTrig_rule_args
      MyLinearTrig_ndof laplace_body_run_1 laplace_body_run_2 laplace_body_run_3)

lemma CalcElementVector_run:
  "CalcElementVector \<lparr>coef_f = one_plus_x\<rparr> midpoint_rule (IsMyBaseElement MyLinearTrig)
     stretch [7, 7, 7] ()
   = (Inr (), [2 / 3, 1 / 2, 1 / 2])"
  by (simp add: CalcElementVector_def vec_zero_def midpoint_rule_def
      source_body_def Let_def mk_MappedIntegrationPoint_def fill_shape_def
      MyLinearTrig_def stretch_def one_plus_x_def scal_vec_def
      vec_add_assign_def upt_0_3)

text \<open>
  The rounding function: the exponent search meets the binade, the rounded value lies
  within half a unit in the last place of its argument, and its significand has 53 bits.
\<close>

lemma pow2_powi: "pow2 e = 2 powi e"
  by (simp add: pow2_def power_int_def power_inverse inverse_eq_divide power_one_over)

lemma pow2_pos: "0 < pow2 e"
  by (simp add: pow2_powi)

lemma pow2_Suc: "pow2 (e + 1) = 2 * pow2 e"
  by (simp add: pow2_powi power_int_add)

lemma pow2_pred: "pow2 (e - 1) = pow2 e / 2"
  by (simp add: pow2_powi power_int_diff)

lemma pow2_0: "pow2 0 = 1"
  by (simp add: pow2_def)

lemma binade_search_bounds:
  "pow2 (- int n) \<le> x \<Longrightarrow> x < pow2 (int n + 1) \<Longrightarrow>
   pow2 (binade_search n x) \<le> x \<and> x < pow2 (binade_search n x + 1)"
proof (induction n arbitrary: x)
  case 0
  then show ?case by (simp add: pow2_def)
next
  case (Suc n)
  consider "x < 1" | "2 \<le> x" | "1 \<le> x" "x < 2" by linarith
  then show ?case
  proof cases
    case 1
    define e where "e = binade_search n (2 * x)"
    have h: "- int (Suc n) = - int n - 1" by simp
    have "pow2 (- int n) / 2 \<le> x"
      using Suc.prems(1) unfolding h pow2_pred .
    then have a: "pow2 (- int n) \<le> 2 * x" by simp
    have "1 \<le> pow2 (int n)" by (simp add: pow2_def)
    then have b: "2 * x < pow2 (int n + 1)"
      unfolding pow2_Suc using 1 by simp
    have bs: "binade_search (Suc n) x = e - 1"
      using 1 by (simp add: e_def)
    have e1: "e - 1 + 1 = e" by simp
    from Suc.IH [OF a b] have "pow2 e \<le> 2 * x" "2 * x < 2 * pow2 e"
      unfolding e_def [symmetric] pow2_Suc by simp_all
    then show ?thesis
      unfolding bs e1 pow2_pred by simp
  next
    case 2
    define e where "e = binade_search n (x / 2)"
    have "pow2 (- int n) \<le> 1" by (simp add: pow2_def)
    then have a: "pow2 (- int n) \<le> x / 2" using 2 by simp
    have h: "int (Suc n) + 1 = (int n + 1) + 1" by simp
    have "x < 2 * pow2 (int n + 1)"
      using Suc.prems(2) unfolding h pow2_Suc .
    then have b: "x / 2 < pow2 (int n + 1)" by simp
    have bs: "binade_search (Suc n) x = e + 1"
      using 2 by (simp add: e_def)
    from Suc.IH [OF a b] have "pow2 e \<le> x / 2" "x / 2 < 2 * pow2 e"
      unfolding e_def [symmetric] pow2_Suc by simp_all
    then show ?thesis
      unfolding bs pow2_Suc by simp
  next
    case 3
    then show ?thesis by (simp add: pow2_def)
  qed
qed

lemma round_half_even_near: "\<bar>of_int (round_half_even q) - q\<bar> \<le> 1 / 2"
  unfolding round_half_even_def Let_def by (auto simp: abs_le_iff)

lemma round_to_double_near:
  assumes "x \<noteq> 0"
  shows "\<bar>round_to_double x - x\<bar> \<le> pow2 (binade \<bar>x\<bar> - 52) / 2"
proof -
  let ?u = "pow2 (binade \<bar>x\<bar> - 52)"
  let ?m = "round_half_even (\<bar>x\<bar> / ?u)"
  have u: "0 < ?u" by (rule pow2_pos)
  have "\<bar>of_int ?m - \<bar>x\<bar> / ?u\<bar> \<le> 1 / 2" by (rule round_half_even_near)
  then have "\<bar>of_int ?m - \<bar>x\<bar> / ?u\<bar> * ?u \<le> 1 / 2 * ?u"
    using u by (simp add: mult_right_mono)
  moreover have "\<bar>of_int ?m - \<bar>x\<bar> / ?u\<bar> * ?u = \<bar>(of_int ?m - \<bar>x\<bar> / ?u) * ?u\<bar>"
    using u by (simp add: abs_mult)
  moreover have "(of_int ?m - \<bar>x\<bar> / ?u) * ?u = of_int ?m * ?u - \<bar>x\<bar>"
    using u by (simp add: left_diff_distrib)
  ultimately have n: "\<bar>of_int ?m * ?u - \<bar>x\<bar>\<bar> \<le> ?u / 2" by simp
  have "round_to_double x - x = sgn x * (of_int ?m * ?u - \<bar>x\<bar>)"
    using assms by (simp add: round_to_double_def Let_def algebra_simps sgn_real_def)
  then have "\<bar>round_to_double x - x\<bar> = \<bar>of_int ?m * ?u - \<bar>x\<bar>\<bar>"
    using assms by (simp add: abs_mult sgn_real_def)
  with n show ?thesis by simp
qed

lemma binade_bounds:
  assumes "pow2 (- 1100) \<le> x" and "x < pow2 1101"
  shows "pow2 (binade x) \<le> x \<and> x < pow2 (binade x + 1)"
  unfolding binade_def using binade_search_bounds [of 1100 x] assms by simp

lemma round_half_even_range:
  "\<lfloor>q\<rfloor> \<le> round_half_even q \<and> round_half_even q \<le> \<lfloor>q\<rfloor> + 1"
  by (simp add: round_half_even_def Let_def)

lemma pow2_ratio: "pow2 e / pow2 (e - 52) = 2 ^ 52"
proof -
  have "pow2 e / pow2 (e - 52) = 2 powi (e - (e - 52))"
    unfolding pow2_powi by (subst power_int_diff) simp_all
  then show ?thesis by simp
qed

text \<open>The significand of the rounded value has 53 bits.\<close>

lemma round_to_double_significand:
  assumes "pow2 (- 1100) \<le> \<bar>x\<bar>" and "\<bar>x\<bar> < pow2 1101"
  shows "2 ^ 52 \<le> round_half_even (\<bar>x\<bar> / pow2 (binade \<bar>x\<bar> - 52))
         \<and> round_half_even (\<bar>x\<bar> / pow2 (binade \<bar>x\<bar> - 52)) \<le> 2 ^ 53"
proof -
  let ?e = "binade \<bar>x\<bar>"
  let ?u = "pow2 (?e - 52)"
  let ?q = "\<bar>x\<bar> / ?u"
  have u: "0 < ?u" by (rule pow2_pos)
  from binade_bounds [OF assms] have lo: "pow2 ?e \<le> \<bar>x\<bar>" and hi: "\<bar>x\<bar> < pow2 (?e + 1)"
    by simp_all
  have "pow2 ?e / ?u \<le> ?q" using lo u by (simp add: divide_right_mono)
  then have q1: "2 ^ 52 \<le> ?q" by (simp only: pow2_ratio)
  have "?q < pow2 (?e + 1) / ?u" using hi u by (simp add: divide_strict_right_mono)
  also have "\<dots> = 2 * (pow2 ?e / ?u)" by (simp add: pow2_Suc)
  finally have q2: "?q < 2 ^ 53" by (simp only: pow2_ratio) simp
  have f1: "2 ^ 52 \<le> \<lfloor>?q\<rfloor>"
  proof -
    have "of_int (2 ^ 52) \<le> ?q" using q1 by simp
    then show ?thesis by (simp only: le_floor_iff)
  qed
  have f2: "\<lfloor>?q\<rfloor> < 2 ^ 53"
  proof -
    have "?q < of_int (2 ^ 53)" using q2 by simp
    then show ?thesis by (simp only: floor_less_iff)
  qed
  from round_half_even_range [of ?q] f1 f2 show ?thesis by linarith
qed

text \<open>Evaluation of the rounding function on numerals.\<close>

lemma binade_search_numeral:
  "binade_search (numeral k) x =
     (if x < 1 then binade_search (pred_numeral k) (2 * x) - 1
      else if 2 \<le> x then binade_search (pred_numeral k) (x / 2) + 1
      else 0)"
  by (simp add: numeral_eq_Suc)

lemmas double_eval =
  round_to_double_def round_half_even_def pow2_def binade_def binade_search_numeral Let_def

text \<open>In double precision a tenth and a fifth do not add up to three tenths.\<close>

lemma double_tenth_plus_fifth:
  "dadd (round_to_double (1 / 10)) (round_to_double (1 / 5))
   = 1351079888211149 / 4503599627370496"
  "round_to_double (3 / 10) = 5404319552844595 / 18014398509481984"
  by (simp_all add: dadd_def double_eval)









































text \<open>Doubling in 32-bit arithmetic is doubling as long as the result fits.\<close>

lemma sint_twice:
  fixes w :: "32 word"
  assumes "- (2 ^ 30) \<le> sint w" and "sint w < 2 ^ 30"
  shows "sint (2 * w) = 2 * sint w"
proof -
  have "sint (2 * w) = signed_take_bit 31 (2 * sint w)"
    by (simp add: sint_word_ariths)
  also have "\<dots> = 2 * sint w"
    using assms by (simp add: signed_take_bit_int_eq_self)
  finally show ?thesis .
qed

section \<open>Properties of the two methods\<close>

text \<open>
  C1. For a supported element \<open>fel\<close> and an output matrix with \<open>ndof\<close> rows and \<open>ndof\<close>
  columns, \<open>CalcElementMatrix\<close> succeeds and leaves in the matrix, whatever it held before,
  the sum over the points of the rule for \<open>(ElementType fel, 2 * Order fel)\<close> of
  \<open>(weight * measure * lambda) * G * G\<^sup>T\<close>, where \<open>G\<close> is the matrix of reference gradients
  right-multiplied by the inverse of the Jacobian.
\<close>

theorem CalcElementMatrix_is_quadrature:
  assumes "is_mat (GetNDof fel) (GetNDof fel) elmat"
  shows "CalcElementMatrix this IntegrationRule (IsMyBaseElement fel) eltrans elmat lh
         = (Inr (), laplace_quadrature (coef_lambda this) fel eltrans
                      (IntegrationRule (ElementType fel) (2 * Order fel)))"
  using assms by (rule CalcElementMatrix_eq)

theorem CalcElementMatrix_is_quadrature_witness:
  "is_mat (GetNDof MyLinearTrig) (GetNDof MyLinearTrig) [[7, 7, 7], [7, 7, 7], [7, 7, 7]]
   \<and> CalcElementMatrix \<lparr>coef_lambda = one_plus_x\<rparr> midpoint_rule (IsMyBaseElement MyLinearTrig)
         stretch [[7, 7, 7], [7, 7, 7], [7, 7, 7]] ()
       = (Inr (), [[5 / 12, 0, - (5 / 12)], [0, 5 / 3, - (5 / 3)],
                   [- (5 / 12), - (5 / 3), 25 / 12]])"
  using is_mat_sevens
    CalcElementMatrix_is_quadrature
      [OF is_mat_sevens, where this = "\<lparr>coef_lambda = one_plus_x\<rparr>"
        and IntegrationRule = midpoint_rule and eltrans = stretch and lh = "()"]
  by (simp add: MyLinearTrig_rule_args laplace_quadrature_example)

text \<open>
  C2. For a supported element \<open>fel\<close> and an output vector of length \<open>ndof\<close>,
  \<open>CalcElementVector\<close> succeeds and leaves in the vector, whatever it held before, the sum
  over the points of the rule for \<open>(ElementType fel, 2 * Order fel)\<close> of
  \<open>(weight * measure * f) * shape\<close>. The inverse of the Jacobian does not enter: unless the
  coefficient itself reads it from the mapped point, replacing the inverse that the
  transformation supplies by any other leaves the result as it is.
\<close>

theorem CalcElementVector_is_quadrature:
  assumes "length elvec = GetNDof fel"
  shows "CalcElementVector this IntegrationRule (IsMyBaseElement fel) eltrans elvec lh
         = (Inr (), source_quadrature (coef_f this) fel eltrans
                      (IntegrationRule (ElementType fel) (2 * Order fel)))
       \<and> ((\<forall>mip J. coef_f this (mip\<lparr>GetJacobianInverse := J\<rparr>) = coef_f this mip) \<longrightarrow>
            CalcElementVector this IntegrationRule (IsMyBaseElement fel)
              (eltrans\<lparr>CalcJacobianInverse := Jinv\<rparr>) elvec lh
            = CalcElementVector this IntegrationRule (IsMyBaseElement fel) eltrans elvec lh)"
  by (simp add: CalcElementVector_eq [OF assms] source_quadrature_Jinv)

theorem CalcElementVector_is_quadrature_witness:
  "CalcElementVector \<lparr>coef_f = one_plus_x\<rparr> midpoint_rule (IsMyBaseElement MyLinearTrig)
         stretch [7, 7, 7] ()
       = (Inr (), [2 / 3, 1 / 2, 1 / 2])
   \<and> CalcElementVector \<lparr>coef_f = one_plus_x\<rparr> midpoint_rule (IsMyBaseElement MyLinearTrig)
         (stretch\<lparr>CalcJacobianInverse := \<lambda>ip. Mat22 9 9 9 9\<rparr>) [7, 7, 7] ()
       = (Inr (), [2 / 3, 1 / 2, 1 / 2])"
proof -
  have c: "\<forall>mip J. coef_f \<lparr>coef_f = one_plus_x\<rparr> (mip\<lparr>GetJacobianInverse := J\<rparr>)
                   = coef_f \<lparr>coef_f = one_plus_x\<rparr> mip"
    by (simp add: one_plus_x_def)
  show ?thesis
    using c CalcElementVector_is_quadrature
      [where this = "\<lparr>coef_f = one_plus_x\<rparr>" and IntegrationRule = midpoint_rule
        and eltrans = stretch and lh = "()" and Jinv = "\<lambda>ip. Mat22 9 9 9 9",
        OF length_sevens]
    by (simp add: MyLinearTrig_rule_args source_quadrature_example)
qed

text \<open>
  C3. Called with an element outside the family of \<open>MyBaseElement\<close>, either method fails
  with the error of the checked cast, as its only outcome, and the output buffer holds
  exactly what it held before the call.
\<close>

theorem unsupported_element_fails:
  "CalcElementMatrix lap IntegrationRule (NotMyBaseElement et ord n) eltrans elmat lh
     = (Inl bad_cast, elmat)
   \<and> CalcElementVector src IntegrationRule (NotMyBaseElement et ord n) eltrans elvec lh
     = (Inl bad_cast, elvec)"
  by (simp add: CalcElementMatrix_def CalcElementVector_def)













text \<open>
  C8. On a supported element both methods run their loop over the rule that the framework's
  constructor returns for the element's geometry type and twice the element's order: the
  same two arguments in \<open>CalcElementMatrix\<close> and in \<open>CalcElementVector\<close>. Nothing else of the
  constructor matters: a constructor that returns the same rule for these two arguments
  gives the same results. The product is the product of 32-bit integers; it is twice the
  order as long as the order lies from \<open>-2^30\<close> to below \<open>2^30\<close>.
\<close>

theorem integration_rule_arguments:
  "CalcElementMatrix lap IntegrationRule (IsMyBaseElement fel) eltrans elmat lh
     = (Inr (), laplace_loop lap fel (GetNDof fel) eltrans
                  (IntegrationRule (ElementType fel) (2 * Order fel)) (mat_zero elmat))
   \<and> CalcElementVector src IntegrationRule (IsMyBaseElement fel) eltrans elvec lh
     = (Inr (), source_loop src fel (GetNDof fel) eltrans
                  (IntegrationRule (ElementType fel) (2 * Order fel)) (vec_zero elvec))
   \<and> (IntegrationRule' (ElementType fel) (2 * Order fel)
        = IntegrationRule (ElementType fel) (2 * Order fel) \<longrightarrow>
      CalcElementMatrix lap IntegrationRule' (IsMyBaseElement fel) eltrans elmat lh
        = CalcElementMatrix lap IntegrationRule (IsMyBaseElement fel) eltrans elmat lh
      \<and> CalcElementVector src IntegrationRule' (IsMyBaseElement fel) eltrans elvec lh
        = CalcElementVector src IntegrationRule (IsMyBaseElement fel) eltrans elvec lh)
   \<and> (- (2 ^ 30) \<le> sint (Order fel) \<and> sint (Order fel) < 2 ^ 30 \<longrightarrow>
      sint (2 * Order fel) = 2 * sint (Order fel))"
  by (simp add: CalcElementMatrix_def CalcElementVector_def Let_def sint_twice)

theorem integration_rule_arguments_witness:
  "CalcElementMatrix \<lparr>coef_lambda = one_plus_x\<rparr> (\<lambda>et order. midpoint_rule ET_TRIG 2)
     (IsMyBaseElement MyLinearTrig) stretch [[7, 7, 7], [7, 7, 7], [7, 7, 7]] ()
   = (Inr (), [[5 / 12, 0, - (5 / 12)], [0, 5 / 3, - (5 / 3)], [- (5 / 12), - (5 / 3), 25 / 12]])
   \<and> CalcElementVector \<lparr>coef_f = one_plus_x\<rparr> (\<lambda>et order. midpoint_rule ET_TRIG 2)
     (IsMyBaseElement MyLinearTrig) stretch [7, 7, 7] ()
   = (Inr (), [2 / 3, 1 / 2, 1 / 2])
   \<and> (\<lambda>et order. midpoint_rule ET_TRIG 2) ET_QUAD 4 \<noteq> midpoint_rule ET_QUAD 4
   \<and> sint (2 * Order MyLinearTrig) = 2"
proof -
  have r: "(\<lambda>et order. midpoint_rule ET_TRIG 2) (ElementType MyLinearTrig) (2 * Order MyLinearTrig)
           = midpoint_rule (ElementType MyLinearTrig) (2 * Order MyLinearTrig)"
    by (simp add: MyLinearTrig_rule_args)
  have d: "(\<lambda>et order. midpoint_rule ET_TRIG 2) ET_QUAD 4 \<noteq> midpoint_rule ET_QUAD 4"
    by (simp add: midpoint_rule_def)
  have b: "- (2 ^ 30) \<le> sint (Order MyLinearTrig) \<and> sint (Order MyLinearTrig) < 2 ^ 30"
    by (simp add: MyLinearTrig_def)
  have s: "sint (Order MyLinearTrig) = 1"
    by (simp add: MyLinearTrig_def)
  show ?thesis
    using r d b s integration_rule_arguments
      [where IntegrationRule = midpoint_rule
        and IntegrationRule' = "\<lambda>et order. midpoint_rule ET_TRIG 2"
        and fel = MyLinearTrig and lap = "\<lparr>coef_lambda = one_plus_x\<rparr>"
        and src = "\<lparr>coef_f = one_plus_x\<rparr>" and eltrans = stretch
        and elmat = "[[7, 7, 7], [7, 7, 7], [7, 7, 7]]" and elvec = "[7, 7, 7]" and lh = "()"]
    by (simp only: CalcElementMatrix_run CalcElementVector_run) simp
qed

text \<open>
  C9. Neither method depends on the scratch allocator: two calls that differ in the
  allocator only have the same outcome and leave the same contents in the output buffer,
  on a supported element and on any other.
\<close>

theorem LocalHeap_is_ignored:
  "CalcElementMatrix lap IntegrationRule base_fel eltrans elmat lh
     = CalcElementMatrix lap IntegrationRule base_fel eltrans elmat lh'
   \<and> CalcElementVector src IntegrationRule base_fel eltrans elvec lh
     = CalcElementVector src IntegrationRule base_fel eltrans elvec lh'"
  by (simp add: CalcElementMatrix_def CalcElementVector_def)

text \<open>
  C10. On a supported element the result of either method does not depend on what the
  output buffer held before the call: two calls whose buffers have the same shape and any
  contents have the same outcome and leave the same contents.
\<close>

theorem prior_contents_are_ignored:
  assumes "map length elmat = map length elmat'" and "length elvec = length elvec'"
  shows "CalcElementMatrix lap IntegrationRule (IsMyBaseElement fel) eltrans elmat lh
           = CalcElementMatrix lap IntegrationRule (IsMyBaseElement fel) eltrans elmat' lh
       \<and> CalcElementVector src IntegrationRule (IsMyBaseElement fel) eltrans elvec lh
           = CalcElementVector src IntegrationRule (IsMyBaseElement fel) eltrans elvec' lh"
  using assms
  by (simp add: CalcElementMatrix_def CalcElementVector_def Let_def mat_zero_shape
      vec_zero_shape)

theorem prior_contents_are_ignored_witness:
  "CalcElementMatrix \<lparr>coef_lambda = one_plus_x\<rparr> midpoint_rule (IsMyBaseElement MyLinearTrig)
      stretch [[1, 2, 3], [4, 5, 6], [7, 8, 9]] ()
    = (Inr (), [[5 / 12, 0, - (5 / 12)], [0, 5 / 3, - (5 / 3)],
                [- (5 / 12), - (5 / 3), 25 / 12]])
   \<and> CalcElementVector \<lparr>coef_f = one_plus_x\<rparr> midpoint_rule (IsMyBaseElement MyLinearTrig)
      stretch [1, 2, 3] ()
    = (Inr (), [2 / 3, 1 / 2, 1 / 2])"
proof -
  have m: "map length [[1, 2, 3], [4, 5, 6], [7, 8, 9 :: real]]
           = map length [[7, 7, 7], [7, 7, 7], [7, 7, 7 :: real]]"
    by simp
  have v: "length [1, 2, 3 :: real] = length [7, 7, 7 :: real]"
    by simp
  show ?thesis
    using prior_contents_are_ignored
      [OF m v, where lap = "\<lparr>coef_lambda = one_plus_x\<rparr>"
        and src = "\<lparr>coef_f = one_plus_x\<rparr>" and fel = MyLinearTrig
        and IntegrationRule = midpoint_rule and eltrans = stretch and lh = "()"]
    by (simp add: CalcElementMatrix_eq [OF is_mat_sevens] CalcElementVector_eq [OF length_sevens]
        MyLinearTrig_rule_args laplace_quadrature_example source_quadrature_example)
qed

end
